theory Spec2Isabelle
  imports Main "HOL-Library.Word"
begin

section \<open>The reader concurrency semaphore\<close>

text \<open>
  A shallow embedding of \<^verbatim>\<open>reader_concurrency_semaphore.cc\<close>: the semaphore, the permit
  records it accounts for, the wait queue and the registry of inactive reads. The
  semaphore lives on one shard and every member function runs to completion, so a member
  function is a function from the state before the call to the state after it. What the
  code hands to its surroundings (a promise resolved, a log line, a reader closed in the
  background, a callback invoked) is appended to a trace kept in the state.
\<close>

subsection \<open>Resources\<close>

text \<open>
  \<^verbatim>\<open>reader_resources\<close> has an \<^verbatim>\<open>int count\<close> and an \<^verbatim>\<open>ssize_t memory\<close>. Signed
  overflow is undefined in C++, so no defined execution wraps: both are integers here.
\<close>

record reader_resources =
  count :: int
  memory :: int

text \<open>
  The type and its operators are declared in \<^verbatim>\<open>reader_permit.hh\<close>, which is not among
  the sources; the source file uses \<^verbatim>\<open>+=\<close>, \<^verbatim>\<open>-=\<close>, \<^verbatim>\<open>>=\<close>, the default value
  \<^verbatim>\<open>{}\<close> and the conversion to \<^verbatim>\<open>bool\<close>.
\<close>

text \<open>
  Modelled from the spec: the default value \<^verbatim>\<open>reader_resources{}\<close>. Section 3: the
  resources of a permit start at zero.
\<close>

definition no_resources :: reader_resources where
  "no_resources = \<lparr>count = 0, memory = 0\<rparr>"

text \<open>
  Modelled from the spec: \<^verbatim>\<open>reader_resources::operator+=\<close>. Section 3: componentwise.
\<close>

definition res_add :: "reader_resources \<Rightarrow> reader_resources \<Rightarrow> reader_resources" where
  "res_add a b = \<lparr>count = count a + count b, memory = memory a + memory b\<rparr>"

text \<open>
  Modelled from the spec: \<^verbatim>\<open>reader_resources::operator-=\<close>. Section 3: componentwise.
\<close>

definition res_sub :: "reader_resources \<Rightarrow> reader_resources \<Rightarrow> reader_resources" where
  "res_sub a b = \<lparr>count = count a - count b, memory = memory a - memory b\<rparr>"

text \<open>
  Modelled from the spec: \<^verbatim>\<open>reader_resources::operator>=\<close>. Section 3: componentwise.
\<close>

definition res_ge :: "reader_resources \<Rightarrow> reader_resources \<Rightarrow> bool" where
  "res_ge a b \<longleftrightarrow> count a \<ge> count b \<and> memory a \<ge> memory b"

text \<open>
  The conversion of \<^verbatim>\<open>reader_resources\<close> to \<^verbatim>\<open>bool\<close> is declared in the same missing
  header. Every function below that tests \<^verbatim>\<open>if (_resources)\<close> or \<^verbatim>\<open>bool(_resources)\<close>
  takes the conversion as its first argument, \<open>truthy\<close>, so that what is proved of the
  function holds whatever the header defines.
\<close>

text \<open>
  Modelled from the spec: \<^verbatim>\<open>reader_resources::operator bool\<close>, as Section 3 words it:
  \<^verbatim>\<open>bool(R)\<close> is \<^verbatim>\<open>count > 0\<close> and \<^verbatim>\<open>memory > 0\<close>.
\<close>

definition resources_bool :: "reader_resources \<Rightarrow> bool" where
  "resources_bool a \<longleftrightarrow> count a > 0 \<and> memory a > 0"

subsection \<open>Permits, waiters, inactive reads\<close>

text \<open>
  The classes and enumerations of the semaphore are declared in the headers
  \<^verbatim>\<open>reader_permit.hh\<close> and \<^verbatim>\<open>reader_concurrency_semaphore.hh\<close>, which are not among
  the sources either. The records below have the members that the source file reads and
  writes, under the names it uses for them.
\<close>

datatype permit_state = waiting | active | inactive

text \<open>
  \<^verbatim>\<open>reader_permit::impl\<close>. The schema pointer is used for its two names only, and may be
  null. A \<^verbatim>\<open>reader_permit\<close> is a shared pointer to such a record: here, a key of the store
  \<open>permits\<close> of the state.
\<close>

record permit_impl =
  schema :: "(string \<times> string) option"
  op_name :: string
  permit_resources :: reader_resources
  permit_state :: permit_state

definition description :: "permit_impl \<Rightarrow> string" where
  "description p =
     (case schema p of None \<Rightarrow> ''*'' | Some (ks, cf) \<Rightarrow> ks) @ ''.'' @
     (case schema p of None \<Rightarrow> ''*'' | Some (ks, cf) \<Rightarrow> cf) @ '':'' @ op_name p"

record resource_units =
  ru_permit :: nat
  ru_resources :: reader_resources

datatype exn =
    named_semaphore_timed_out string
  | broken_semaphore
  | runtime_error string

text \<open>
  An entry of the wait list: the promise (by the number the model gave it), the permit
  and the request. The expiring queue keeps the deadline beside the entry.
\<close>

record entry =
  pr :: nat
  permit :: nat
  res :: reader_resources
  timeout :: nat

datatype evict_reason = permit_reason | time_reason | manual_reason

record flat_mutation_reader =
  reader_id :: nat
  reader_permit :: nat

text \<open>
  An inactive read owns its reader. Its notify handler, when one is set, is a callback of
  the caller: the model keeps its number and whether calling it throws.
\<close>

record inactive_read =
  reader :: flat_mutation_reader
  notify_handler :: "(nat \<times> bool) option"
  ttl :: "nat option"

datatype log_level = error_level | warn_level | info_level

datatype message =
    permit_leak string reader_resources
  | registering_inactive_read_failed
  | notify_handler_failed string evict_reason
  | permit_diagnostics string

datatype event =
    set_value nat resource_units
  | set_exception nat exn
  | log_event log_level message
  | prethrow_action_called
  | notify_called nat evict_reason
  | close_reader_called flat_mutation_reader

text \<open>
  Modelled from the spec: the counters of \<^verbatim>\<open>reader_concurrency_semaphore::stats\<close>.
  Section 6 names these four; the source increments and decrements them, and they are
  taken to be unsigned 64-bit counters, like the counter of the source's own
  \<^verbatim>\<open>permit_stats\<close>. The counter of inactive reads is \<open>inactive_reads_stat\<close> here, apart
  from the list of the same name.
\<close>

record stats =
  permit_based_evictions :: "64 word"
  time_based_evictions :: "64 word"
  inactive_reads_stat :: "64 word"
  total_reads_shed_due_to_overload :: "64 word"

text \<open>
  The semaphore. \<open>resources\<close> are the available resources. The prethrow action is a
  callback of the caller: the state keeps whether one is set, and the trace records a
  call of it. Three members belong to the model only: the store \<open>permits\<close> of the permit
  records that are alive, with \<open>next_permit\<close> the next unused key, and \<open>next_promise\<close>,
  the number of the next promise to be put in the wait list.
\<close>

record reader_concurrency_semaphore =
  initial_resources :: reader_resources
  resources :: reader_resources
  wait_list :: "entry list"
  inactive_reads :: "inactive_read list"
  sem_stats :: stats
  name :: string
  max_queue_length :: nat
  prethrow_action :: bool
  stopped :: bool
  permits :: "nat \<Rightarrow> permit_impl option"
  next_permit :: nat
  next_promise :: nat
  trace :: "event list"

subsection \<open>Admission predicate\<close>

definition has_available_units ::
  "(reader_resources \<Rightarrow> bool) \<Rightarrow> reader_concurrency_semaphore \<Rightarrow> reader_resources \<Rightarrow> bool" where
  "has_available_units truthy s r \<longleftrightarrow>
     (truthy (resources s) \<and> res_ge (resources s) r)
     \<or> count (resources s) = count (initial_resources s)"


subsection \<open>Futures\<close>

text \<open>
  What an admission call returns: a future that already holds its units, a future that
  already holds an exception, or the future of a promise that is still in the wait list.
\<close>

datatype future =
    ready_future resource_units
  | exception_future exn
  | pending_future nat

subsection \<open>Permit operations\<close>

text \<open>
  A member function of a permit works on the record behind the handle. A handle always
  has its record in the source; a key without a record stands for no permit, and nothing
  is updated for it.
\<close>

definition update_permit ::
  "nat \<Rightarrow> (permit_impl \<Rightarrow> permit_impl) \<Rightarrow> reader_concurrency_semaphore \<Rightarrow> reader_concurrency_semaphore" where
  "update_permit p f s =
     (case permits s p of
        None \<Rightarrow> s
      | Some i \<Rightarrow> s\<lparr>permits := (permits s)(p \<mapsto> f i)\<rparr>)"

definition on_waiting :: "nat \<Rightarrow> reader_concurrency_semaphore \<Rightarrow> reader_concurrency_semaphore" where
  "on_waiting p = update_permit p (\<lambda>i. i\<lparr>permit_state := waiting\<rparr>)"

definition on_admission :: "nat \<Rightarrow> reader_concurrency_semaphore \<Rightarrow> reader_concurrency_semaphore" where
  "on_admission p = update_permit p (\<lambda>i. i\<lparr>permit_state := active\<rparr>)"

definition on_register_as_inactive :: "nat \<Rightarrow> reader_concurrency_semaphore \<Rightarrow> reader_concurrency_semaphore" where
  "on_register_as_inactive p = update_permit p (\<lambda>i. i\<lparr>permit_state := inactive\<rparr>)"

definition on_unregister_as_inactive :: "nat \<Rightarrow> reader_concurrency_semaphore \<Rightarrow> reader_concurrency_semaphore" where
  "on_unregister_as_inactive p = update_permit p (\<lambda>i. i\<lparr>permit_state := active\<rparr>)"

text \<open>
  Modelled from the spec: \<^verbatim>\<open>reader_concurrency_semaphore::consume\<close>, defined in the class
  declaration in \<^verbatim>\<open>reader_concurrency_semaphore.hh\<close>, which is not among the sources.
  Section 4.2: it decrements the semaphore's available resources, with no admission check.
\<close>

definition consume :: "reader_concurrency_semaphore \<Rightarrow> reader_resources \<Rightarrow> reader_concurrency_semaphore" where
  "consume s r = s\<lparr>resources := res_sub (resources s) r\<rparr>"

definition impl_consume :: "reader_concurrency_semaphore \<Rightarrow> nat \<Rightarrow> reader_resources \<Rightarrow> reader_concurrency_semaphore" where
  "impl_consume s p r =
     consume (update_permit p (\<lambda>i. i\<lparr>permit_resources := res_add (permit_resources i) r\<rparr>) s) r"

text \<open>
  \<^verbatim>\<open>make_permit\<close>: a new record, active and holding nothing, under a key not used before.
\<close>

definition make_permit ::
  "reader_concurrency_semaphore \<Rightarrow> (string \<times> string) option \<Rightarrow> string \<Rightarrow> nat \<times> reader_concurrency_semaphore" where
  "make_permit s sch opn =
     (next_permit s,
      s\<lparr>permits := (permits s)(next_permit s \<mapsto>
           \<lparr>schema = sch, op_name = opn, permit_resources = no_resources, permit_state = active\<rparr>),
        next_permit := Suc (next_permit s)\<rparr>)"

subsection \<open>Signalling\<close>

text \<open>
  One turn of the loop of \<^verbatim>\<open>signal\<close>, for the entry \<open>x\<close> at the head: the permit becomes
  active, the units are built (which consumes the request), the promise receives them, and
  the entry is popped. Neither \<^verbatim>\<open>on_admission\<close> nor the \<^verbatim>\<open>noexcept\<close> constructor of the
  units throws, so the \<^verbatim>\<open>catch\<close> of the source has no branch here.
\<close>

definition admit :: "entry \<Rightarrow> reader_concurrency_semaphore \<Rightarrow> reader_concurrency_semaphore" where
  "admit x s =
     (let s1 = on_admission (permit x) s;
          s2 = impl_consume s1 (permit x) (res x);
          s3 = s2\<lparr>trace := trace s2 @ [set_value (pr x) \<lparr>ru_permit = permit x, ru_resources = res x\<rparr>]\<rparr>
      in s3\<lparr>wait_list := tl (wait_list s3)\<rparr>)"

function signal_loop ::
  "(reader_resources \<Rightarrow> bool) \<Rightarrow> reader_concurrency_semaphore \<Rightarrow> reader_concurrency_semaphore" where
  "signal_loop truthy s =
     (if wait_list s \<noteq> [] \<and> has_available_units truthy s (res (hd (wait_list s)))
      then signal_loop truthy (admit (hd (wait_list s)) s)
      else s)"
  by pat_completeness auto
termination
  by (relation "measure (\<lambda>(truthy, s). length (wait_list s))")
     (auto simp: admit_def Let_def impl_consume_def consume_def on_admission_def
        update_permit_def split: option.split)

definition signal ::
  "(reader_resources \<Rightarrow> bool) \<Rightarrow> reader_concurrency_semaphore \<Rightarrow> reader_resources \<Rightarrow> reader_concurrency_semaphore" where
  "signal truthy s r = signal_loop truthy (s\<lparr>resources := res_add (resources s) r\<rparr>)"

definition impl_signal ::
  "(reader_resources \<Rightarrow> bool) \<Rightarrow> reader_concurrency_semaphore \<Rightarrow> nat \<Rightarrow> reader_resources \<Rightarrow> reader_concurrency_semaphore" where
  "impl_signal truthy s p r =
     signal truthy (update_permit p (\<lambda>i. i\<lparr>permit_resources := res_sub (permit_resources i) r\<rparr>) s) r"

subsection \<open>Resource units\<close>

definition resource_units_ctor ::
  "reader_concurrency_semaphore \<Rightarrow> nat \<Rightarrow> reader_resources \<Rightarrow> resource_units \<times> reader_concurrency_semaphore" where
  "resource_units_ctor s p r = (\<lparr>ru_permit = p, ru_resources = r\<rparr>, impl_consume s p r)"

definition resource_units_reset ::
  "(reader_resources \<Rightarrow> bool) \<Rightarrow> reader_concurrency_semaphore \<Rightarrow> resource_units \<Rightarrow> reader_resources
     \<Rightarrow> resource_units \<times> reader_concurrency_semaphore" where
  "resource_units_reset truthy s u r =
     (let s1 = impl_consume s (ru_permit u) r;
          s2 = (if truthy (ru_resources u)
                then impl_signal truthy s1 (ru_permit u) (ru_resources u)
                else s1)
      in (u\<lparr>ru_resources := r\<rparr>, s2))"

text \<open>
  The destructor calls \<^verbatim>\<open>reset()\<close> without an argument: the units are reset to no
  resources.
\<close>

definition resource_units_dtor ::
  "(reader_resources \<Rightarrow> bool) \<Rightarrow> reader_concurrency_semaphore \<Rightarrow> resource_units \<Rightarrow> reader_concurrency_semaphore" where
  "resource_units_dtor truthy s u =
     (if truthy (ru_resources u) then snd (resource_units_reset truthy s u no_resources) else s)"

subsection \<open>Destruction of a permit record\<close>

text \<open>
  \<^verbatim>\<open>reader_permit::impl::~impl\<close>, run when the last holder of the permit drops it. The
  record unlinks itself from the permit list: here, its key leaves the store.
\<close>

definition impl_destroy ::
  "(reader_resources \<Rightarrow> bool) \<Rightarrow> reader_concurrency_semaphore \<Rightarrow> nat \<Rightarrow> reader_concurrency_semaphore" where
  "impl_destroy truthy s p =
     (case permits s p of
        None \<Rightarrow> s
      | Some i \<Rightarrow>
          (let s1 = (if truthy (permit_resources i)
                     then impl_signal truthy
                            (s\<lparr>trace := trace s @
                                 [log_event error_level (permit_leak (description i) (permit_resources i))]\<rparr>)
                            p (permit_resources i)
                     else s)
           in s1\<lparr>permits := (permits s1)(p := None)\<rparr>))"


subsection \<open>Inactive reads\<close>

text \<open>
  \<^verbatim>\<open>close_reader\<close> hands the reader to a background task that closes it (inside the gate
  that \<^verbatim>\<open>stop\<close> awaits). What closing a reader releases arrives later, as calls of its
  own; the model records that the close was started. Once \<^verbatim>\<open>stop\<close> has closed the gate,
  entering it throws; the model has no gate and lets the close start.
\<close>

definition close_reader ::
  "reader_concurrency_semaphore \<Rightarrow> flat_mutation_reader \<Rightarrow> reader_concurrency_semaphore" where
  "close_reader s rd = s\<lparr>trace := trace s @ [close_reader_called rd]\<rparr>"

text \<open>
  An \<^verbatim>\<open>inactive_read_handle\<close> points to its inactive read, and the read points back: when
  the read is destroyed the handle becomes null. The model's handle is the number of the
  reader it was given for, and it is null when no read of the list carries that reader.
  Allocating the inactive read may throw; \<open>alloc_fails\<close> says whether it does.
\<close>

definition register_inactive_read ::
  "reader_concurrency_semaphore \<Rightarrow> flat_mutation_reader \<Rightarrow> bool
     \<Rightarrow> nat option \<times> reader_concurrency_semaphore" where
  "register_inactive_read s rd alloc_fails =
     (if wait_list s = [] \<and> memory (resources s) > 0 then
        (if alloc_fails then
           (let s1 = s\<lparr>trace := trace s @ [log_event warn_level registering_inactive_read_failed]\<rparr>
            in (None, close_reader s1 rd))
         else
           (let ir = \<lparr>reader = rd, notify_handler = None, ttl = None\<rparr>;
                s1 = s\<lparr>inactive_reads := inactive_reads s @ [ir]\<rparr>;
                s2 = s1\<lparr>sem_stats := (sem_stats s1)
                        \<lparr>inactive_reads_stat := inactive_reads_stat (sem_stats s1) + 1\<rparr>\<rparr>;
                s3 = on_register_as_inactive (reader_permit rd) s2
            in (Some (reader_id rd), s3)))
      else
        (let s1 = s\<lparr>sem_stats := (sem_stats s)
                    \<lparr>permit_based_evictions := permit_based_evictions (sem_stats s) + 1\<rparr>\<rparr>
         in (None, close_reader s1 rd)))"

definition find_inactive_read :: "reader_concurrency_semaphore \<Rightarrow> nat \<Rightarrow> inactive_read option" where
  "find_inactive_read s k = find (\<lambda>ir. reader_id (reader ir) = k) (inactive_reads s)"

definition set_notify_handler ::
  "reader_concurrency_semaphore \<Rightarrow> nat \<Rightarrow> (nat \<times> bool) \<Rightarrow> nat option \<Rightarrow> reader_concurrency_semaphore" where
  "set_notify_handler s k h ttl_opt =
     s\<lparr>inactive_reads :=
          map (\<lambda>ir. if reader_id (reader ir) = k
                    then ir\<lparr>notify_handler := Some h,
                            ttl := (case ttl_opt of None \<Rightarrow> ttl ir | Some x \<Rightarrow> Some x)\<rparr>
                    else ir)
              (inactive_reads s)\<rparr>"

text \<open>
  \<^verbatim>\<open>unregister_inactive_read\<close>, for a handle of this semaphore (the model has one
  semaphore; the branch for a handle of another one is not modelled).
\<close>

definition unregister_inactive_read ::
  "reader_concurrency_semaphore \<Rightarrow> nat option
     \<Rightarrow> flat_mutation_reader option \<times> reader_concurrency_semaphore" where
  "unregister_inactive_read s irh =
     (case irh of
        None \<Rightarrow> (None, s)
      | Some k \<Rightarrow>
          (case find_inactive_read s k of
             None \<Rightarrow> (None, s)
           | Some ir \<Rightarrow>
               (let s1 = s\<lparr>sem_stats := (sem_stats s)
                           \<lparr>inactive_reads_stat := inactive_reads_stat (sem_stats s) - 1\<rparr>\<rparr>;
                    s2 = on_unregister_as_inactive (reader_permit (reader ir)) s1;
                    s3 = s2\<lparr>inactive_reads := remove1 ir (inactive_reads s2)\<rparr>
                in (Some (reader ir), s3))))"

text \<open>
  \<^verbatim>\<open>inactive_read_handle::abandon\<close>: a live handle dropped without unregistering.
\<close>

definition abandon :: "reader_concurrency_semaphore \<Rightarrow> nat option \<Rightarrow> reader_concurrency_semaphore" where
  "abandon s irh =
     (case irh of
        None \<Rightarrow> s
      | Some k \<Rightarrow>
          (case find_inactive_read s k of
             None \<Rightarrow> s
           | Some ir \<Rightarrow>
               (let s1 = close_reader s (reader ir)
                in s1\<lparr>inactive_reads := remove1 ir (inactive_reads s1)\<rparr>)))"

definition detach_inactive_reader ::
  "reader_concurrency_semaphore \<Rightarrow> inactive_read \<Rightarrow> evict_reason
     \<Rightarrow> flat_mutation_reader \<times> reader_concurrency_semaphore" where
  "detach_inactive_reader s ir reason =
     (let s1 = (case notify_handler ir of
                  None \<Rightarrow> s
                | Some (h, throws) \<Rightarrow>
                    (let s' = s\<lparr>trace := trace s @ [notify_called h reason]\<rparr>
                     in if throws
                        then s'\<lparr>trace := trace s' @
                                  [log_event error_level (notify_handler_failed (name s) reason)]\<rparr>
                        else s'));
          s2 = (case reason of
                  permit_reason \<Rightarrow>
                    s1\<lparr>sem_stats := (sem_stats s1)
                         \<lparr>permit_based_evictions := permit_based_evictions (sem_stats s1) + 1\<rparr>\<rparr>
                | time_reason \<Rightarrow>
                    s1\<lparr>sem_stats := (sem_stats s1)
                         \<lparr>time_based_evictions := time_based_evictions (sem_stats s1) + 1\<rparr>\<rparr>
                | manual_reason \<Rightarrow> s1);
          s3 = s2\<lparr>sem_stats := (sem_stats s2)
                  \<lparr>inactive_reads_stat := inactive_reads_stat (sem_stats s2) - 1\<rparr>\<rparr>;
          s4 = s3\<lparr>inactive_reads := remove1 ir (inactive_reads s3)\<rparr>
      in (reader ir, s4))"

definition evict ::
  "reader_concurrency_semaphore \<Rightarrow> inactive_read \<Rightarrow> evict_reason \<Rightarrow> reader_concurrency_semaphore" where
  "evict s ir reason =
     (case detach_inactive_reader s ir reason of (rd, s1) \<Rightarrow> close_reader s1 rd)"

definition try_evict_one_inactive_read ::
  "reader_concurrency_semaphore \<Rightarrow> evict_reason \<Rightarrow> bool \<times> reader_concurrency_semaphore" where
  "try_evict_one_inactive_read s reason =
     (if inactive_reads s = [] then (False, s)
      else (True, evict s (hd (inactive_reads s)) reason))"

function clear_inactive_reads :: "reader_concurrency_semaphore \<Rightarrow> reader_concurrency_semaphore" where
  "clear_inactive_reads s =
     (if inactive_reads s \<noteq> []
      then clear_inactive_reads
             ((close_reader s (reader (hd (inactive_reads s))))
                \<lparr>inactive_reads := tl (inactive_reads s)\<rparr>)
      else s)"
  by pat_completeness auto
termination
  by (relation "measure (\<lambda>s. length (inactive_reads s))") (auto simp: close_reader_def)


subsection \<open>The wait list\<close>

text \<open>
  \<^verbatim>\<open>maybe_dump_reader_permit_diagnostics\<close> asks the logger for a dump of the permits at
  \<^verbatim>\<open>info\<close> level; the logger's rate limit decides whether it is printed.
\<close>

definition maybe_dump_reader_permit_diagnostics ::
  "reader_concurrency_semaphore \<Rightarrow> string \<Rightarrow> reader_concurrency_semaphore" where
  "maybe_dump_reader_permit_diagnostics s problem =
     s\<lparr>trace := trace s @ [log_event info_level (permit_diagnostics problem)]\<rparr>"

definition expiry_handler ::
  "reader_concurrency_semaphore \<Rightarrow> entry \<Rightarrow> reader_concurrency_semaphore" where
  "expiry_handler s e =
     maybe_dump_reader_permit_diagnostics
       (s\<lparr>trace := trace s @ [set_exception (pr e) (named_semaphore_timed_out (name s))]\<rparr>)
       ''timed out''"

text \<open>
  Modelled from the spec: the expiring queue, a class of the runtime library. Section 4.3:
  when the deadline of an entry elapses while it is queued, the entry is removed and the
  expiry handler runs on it. \<open>expire s k\<close> is that event for the entry whose promise has
  number \<open>k\<close>.
\<close>

definition expire :: "reader_concurrency_semaphore \<Rightarrow> nat \<Rightarrow> reader_concurrency_semaphore" where
  "expire s k =
     (case find (\<lambda>e. pr e = k) (wait_list s) of
        None \<Rightarrow> s
      | Some e \<Rightarrow> (expiry_handler s e)\<lparr>wait_list := remove1 e (wait_list s)\<rparr>)"

definition enqueue_waiter ::
  "reader_concurrency_semaphore \<Rightarrow> nat \<Rightarrow> reader_resources \<Rightarrow> nat
     \<Rightarrow> future \<times> reader_concurrency_semaphore" where
  "enqueue_waiter s p r t =
     (if length (wait_list s) \<ge> max_queue_length s then
        (let s1 = s\<lparr>sem_stats := (sem_stats s)
                    \<lparr>total_reads_shed_due_to_overload :=
                       total_reads_shed_due_to_overload (sem_stats s) + 1\<rparr>\<rparr>;
             s2 = (if prethrow_action s1
                   then s1\<lparr>trace := trace s1 @ [prethrow_action_called]\<rparr> else s1);
             s3 = maybe_dump_reader_permit_diagnostics s2 ''wait queue overloaded''
         in (exception_future
               (runtime_error (name s @ '': restricted mutation reader queue overload'')), s3))
      else
        (let k = next_promise s;
             s1 = on_waiting p s;
             s2 = s1\<lparr>wait_list := wait_list s1 @ [\<lparr>pr = k, permit = p, res = r, timeout = t\<rparr>],
                     next_promise := Suc k\<rparr>
         in (pending_future k, s2)))"

text \<open>
  The loop of \<^verbatim>\<open>evict_readers_in_background\<close> tests its stop condition, detaches the
  oldest inactive read with reason \<^verbatim>\<open>permit\<close> and closes its reader; it goes round again
  when that close has completed. \<open>evict_readers_step\<close> is one turn. The call itself runs
  the first turn; the later turns are later events.
\<close>

definition evict_readers_step :: "reader_concurrency_semaphore \<Rightarrow> reader_concurrency_semaphore" where
  "evict_readers_step s =
     (if wait_list s = [] \<or> inactive_reads s = [] then s
      else (case detach_inactive_reader s (hd (inactive_reads s)) permit_reason of
              (rd, s1) \<Rightarrow> s1\<lparr>trace := trace s1 @ [close_reader_called rd]\<rparr>))"

definition evict_readers_in_background ::
  "reader_concurrency_semaphore \<Rightarrow> reader_concurrency_semaphore" where
  "evict_readers_in_background s = evict_readers_step s"

text \<open>
  \<^verbatim>\<open>do_wait_admission\<close>. The \<^verbatim>\<open>size_t\<close> argument is cast to \<^verbatim>\<open>ssize_t\<close>: the same 64
  bits read as a signed number.
\<close>

definition do_wait_admission ::
  "(reader_resources \<Rightarrow> bool) \<Rightarrow> reader_concurrency_semaphore \<Rightarrow> nat \<Rightarrow> 64 word \<Rightarrow> nat
     \<Rightarrow> future \<times> reader_concurrency_semaphore" where
  "do_wait_admission truthy s p mem t =
     (let r = \<lparr>count = 1, memory = sint mem\<rparr>;
          first = (wait_list s = [])
      in if first \<and> has_available_units truthy s r then
           (let s1 = on_admission p s
            in case resource_units_ctor s1 p r of (u, s2) \<Rightarrow> (ready_future u, s2))
         else
           (case enqueue_waiter s p r t of
              (fut, s1) \<Rightarrow>
                (fut, if first \<and> inactive_reads s1 \<noteq> []
                      then evict_readers_in_background s1 else s1)))"

function broken_loop :: "exn \<Rightarrow> reader_concurrency_semaphore \<Rightarrow> reader_concurrency_semaphore" where
  "broken_loop ex s =
     (if wait_list s \<noteq> []
      then broken_loop ex
             (s\<lparr>trace := trace s @ [set_exception (pr (hd (wait_list s))) ex],
                wait_list := tl (wait_list s)\<rparr>)
      else s)"
  by pat_completeness auto
termination
  by (relation "measure (\<lambda>(ex, s). length (wait_list s))") auto

text \<open>A null \<^verbatim>\<open>exception_ptr\<close> is \<open>None\<close>.\<close>

definition broken :: "reader_concurrency_semaphore \<Rightarrow> exn option \<Rightarrow> reader_concurrency_semaphore" where
  "broken s ex =
     broken_loop (case ex of None \<Rightarrow> broken_semaphore | Some e \<Rightarrow> e) s"

definition stopped_exception :: "reader_concurrency_semaphore \<Rightarrow> exn" where
  "stopped_exception s = runtime_error (name s @ '' was stopped'')"

text \<open>
  \<^verbatim>\<open>stop\<close> asserts that it runs once: \<open>None\<close> is the failed assertion. Between clearing
  the inactive reads and breaking the waiters it awaits the background closes; the model
  runs the two halves together.
\<close>

definition stop :: "reader_concurrency_semaphore \<Rightarrow> reader_concurrency_semaphore option" where
  "stop s =
     (if stopped s then None
      else (let s1 = s\<lparr>stopped := True\<rparr>;
                s2 = clear_inactive_reads s1
            in Some (broken s2 (Some (stopped_exception s2)))))"

text \<open>
  The equations of the three loops unfold without end when used as rewrite rules: they
  are unfolded by hand where needed.
\<close>

declare signal_loop.simps [simp del] clear_inactive_reads.simps [simp del] broken_loop.simps [simp del]

text \<open>The constructor: everything available, nobody waiting, nothing counted.\<close>

definition make_semaphore ::
  "int \<Rightarrow> int \<Rightarrow> string \<Rightarrow> nat \<Rightarrow> bool \<Rightarrow> reader_concurrency_semaphore" where
  "make_semaphore c m nm max_len prethrow =
     \<lparr>initial_resources = \<lparr>count = c, memory = m\<rparr>,
      resources = \<lparr>count = c, memory = m\<rparr>,
      wait_list = [],
      inactive_reads = [],
      sem_stats = \<lparr>permit_based_evictions = 0, time_based_evictions = 0,
                   inactive_reads_stat = 0, total_reads_shed_due_to_overload = 0\<rparr>,
      name = nm,
      max_queue_length = max_len,
      prethrow_action = prethrow,
      stopped = False,
      permits = Map.empty,
      next_permit = 0,
      next_promise = 0,
      trace = []\<rparr>"


text \<open>
  Modelled from the spec: the default arguments of the constructor, declared in the
  missing header. Section 6: the queue length is unbounded (here the largest
  \<^verbatim>\<open>size_t\<close>) and there is no prethrow action. The constructor for a semaphore without
  limits passes the largest \<^verbatim>\<open>int\<close> and the largest \<^verbatim>\<open>ssize_t\<close> with these defaults.
\<close>

definition make_semaphore_no_limits :: "string \<Rightarrow> reader_concurrency_semaphore" where
  "make_semaphore_no_limits nm = make_semaphore (2 ^ 31 - 1) (2 ^ 63 - 1) nm (2 ^ 64 - 1) False"

subsection \<open>Runs\<close>

text \<open>
  The calls the surroundings can make on the semaphore and its permits, with the events
  of the runtime among them (a deadline elapses, a timer of an inactive read fires, the
  background eviction takes another turn). A run is a list of calls executed in order;
  what a call returns is dropped. A second \<^verbatim>\<open>stop\<close> fails its assertion and the process
  ends there: the run keeps the state.
\<close>

datatype call =
    call_make_permit "(string \<times> string) option" string
  | call_wait_admission nat "64 word" nat
  | call_consume nat reader_resources
  | call_signal nat reader_resources
  | call_units_reset resource_units reader_resources
  | call_units_destroy resource_units
  | call_semaphore_consume reader_resources
  | call_semaphore_signal reader_resources
  | call_destroy_permit nat
  | call_register_inactive_read flat_mutation_reader bool
  | call_set_notify_handler nat "nat \<times> bool" "nat option"
  | call_unregister_inactive_read "nat option"
  | call_abandon "nat option"
  | call_try_evict_one evict_reason
  | call_ttl_elapsed nat
  | call_evict_readers_step
  | call_clear_inactive_reads
  | call_expire nat
  | call_broken "exn option"
  | call_stop

fun exec ::
  "(reader_resources \<Rightarrow> bool) \<Rightarrow> call \<Rightarrow> reader_concurrency_semaphore \<Rightarrow> reader_concurrency_semaphore" where
  "exec truthy (call_make_permit sch opn) s = snd (make_permit s sch opn)"
| "exec truthy (call_wait_admission p mem t) s = snd (do_wait_admission truthy s p mem t)"
| "exec truthy (call_consume p r) s = impl_consume s p r"
| "exec truthy (call_signal p r) s = impl_signal truthy s p r"
| "exec truthy (call_units_reset u r) s = snd (resource_units_reset truthy s u r)"
| "exec truthy (call_units_destroy u) s = resource_units_dtor truthy s u"
| "exec truthy (call_semaphore_consume r) s = consume s r"
| "exec truthy (call_semaphore_signal r) s = signal truthy s r"
| "exec truthy (call_destroy_permit p) s = impl_destroy truthy s p"
| "exec truthy (call_register_inactive_read rd alloc_fails) s = snd (register_inactive_read s rd alloc_fails)"
| "exec truthy (call_set_notify_handler k h ttl_opt) s = set_notify_handler s k h ttl_opt"
| "exec truthy (call_unregister_inactive_read irh) s = snd (unregister_inactive_read s irh)"
| "exec truthy (call_abandon irh) s = abandon s irh"
| "exec truthy (call_try_evict_one reason) s = snd (try_evict_one_inactive_read s reason)"
| "exec truthy (call_ttl_elapsed k) s =
     (case find_inactive_read s k of
        None \<Rightarrow> s
      | Some ir \<Rightarrow> if ttl ir = None then s else evict s ir time_reason)"
| "exec truthy call_evict_readers_step s = evict_readers_step s"
| "exec truthy call_clear_inactive_reads s = clear_inactive_reads s"
| "exec truthy (call_expire k) s = expire s k"
| "exec truthy (call_broken ex) s = broken s ex"
| "exec truthy call_stop s = (case stop s of None \<Rightarrow> s | Some s' \<Rightarrow> s')"

definition run ::
  "(reader_resources \<Rightarrow> bool) \<Rightarrow> call list \<Rightarrow> reader_concurrency_semaphore \<Rightarrow> reader_concurrency_semaphore" where
  "run truthy cs s = foldl (\<lambda>s' c. exec truthy c s') s cs"

subsection \<open>Vocabulary of the properties\<close>

text \<open>The sum of a list of requests, and the event that resolves the promise of an entry.\<close>

definition total_res :: "reader_resources list \<Rightarrow> reader_resources" where
  "total_res rs = \<lparr>count = sum_list (map count rs), memory = sum_list (map memory rs)\<rparr>"

definition admission_event :: "entry \<Rightarrow> event" where
  "admission_event x = set_value (pr x) \<lparr>ru_permit = permit x, ru_resources = res x\<rparr>"

text \<open>The events around the notify handler of an evicted inactive read.\<close>

definition notify_events :: "inactive_read \<Rightarrow> evict_reason \<Rightarrow> string \<Rightarrow> event list" where
  "notify_events ir reason nm =
     (case notify_handler ir of
        None \<Rightarrow> []
      | Some (h, throws) \<Rightarrow>
          notify_called h reason #
          (if throws then [log_event error_level (notify_handler_failed nm reason)] else []))"

text \<open>
  The numbers of the promises that received their units, in the order of the trace. The
  wait list gives out the numbers in the order of enqueuing (\<open>enqueue_waiter\<close>), so the
  order of the numbers is the order of arrival. \<open>fifo_line\<close> is the promises admitted so
  far followed by the ones still waiting; \<open>fifo_order\<close> says the line is in order of
  arrival and holds only numbers already given out.
\<close>

definition admitted_promises :: "event list \<Rightarrow> nat list" where
  "admitted_promises es = concat (map (\<lambda>e. case e of set_value k u \<Rightarrow> [k] | _ \<Rightarrow> []) es)"

definition fifo_line :: "reader_concurrency_semaphore \<Rightarrow> nat list" where
  "fifo_line s = admitted_promises (trace s) @ map pr (wait_list s)"

definition fifo_order :: "reader_concurrency_semaphore \<Rightarrow> bool" where
  "fifo_order s \<longleftrightarrow>
     sorted_wrt (<) (admitted_promises (trace s) @ map pr (wait_list s))
     \<and> (\<forall>k \<in> set (admitted_promises (trace s) @ map pr (wait_list s)). k < next_promise s)"

definition same_line :: "reader_concurrency_semaphore \<Rightarrow> reader_concurrency_semaphore \<Rightarrow> bool" where
  "same_line s s' \<longleftrightarrow> fifo_line s' = fifo_line s \<and> next_promise s' = next_promise s"

subsection \<open>Example states\<close>

text \<open>
  \<open>example_idle\<close>: a semaphore of two slots and 1024 bytes with one permit and nothing
  consumed. \<open>example_busy\<close>: both slots taken by readers of 500 bytes each, two permits
  waiting (for 600 and for 10 bytes) in a wait list of length two, which is its maximum.
  \<open>example_admitted\<close>: the same semaphore with one permit admitted for 100 bytes.
  \<open>example_memory_only\<close>: a semaphore of ten slots and one mebibyte, with a permit
  that consumed 1024 bytes of memory through units that were then destroyed.
  \<open>example_parked\<close>: a semaphore without limits with one inactive read registered.
  \<open>example_releases\<close>: the run to \<open>example_busy\<close> followed by the two readers giving
  their units back.
\<close>

definition example_idle :: reader_concurrency_semaphore where
  "example_idle = snd (make_permit (make_semaphore 2 1024 ''sem'' 2 True) None ''read'')"

definition example_busy :: reader_concurrency_semaphore where
  "example_busy =
     run resources_bool
       [call_make_permit None ''read'', call_make_permit None ''read'',
        call_make_permit None ''read'', call_make_permit None ''read'',
        call_make_permit None ''read'',
        call_wait_admission 0 500 0, call_wait_admission 1 500 0,
        call_wait_admission 2 600 0, call_wait_admission 3 10 0]
       (make_semaphore 2 1024 ''sem'' 2 True)"



definition example_parked :: reader_concurrency_semaphore where
  "example_parked =
     run resources_bool
       [call_make_permit None ''read'',
        call_register_inactive_read \<lparr>reader_id = 0, reader_permit = 0\<rparr> False,
        call_set_notify_handler 0 (7, False) None]
       (make_semaphore_no_limits ''sem'')"

definition example_releases :: "call list" where
  "example_releases =
     [call_make_permit None ''read'', call_make_permit None ''read'',
      call_make_permit None ''read'', call_make_permit None ''read'',
      call_make_permit None ''read'',
      call_wait_admission 0 500 0, call_wait_admission 1 500 0,
      call_wait_admission 2 600 0, call_wait_admission 3 10 0,
      call_units_destroy \<lparr>ru_permit = 0, ru_resources = \<lparr>count = 1, memory = 500\<rparr>\<rparr>,
      call_units_destroy \<lparr>ru_permit = 1, ru_resources = \<lparr>count = 1, memory = 500\<rparr>\<rparr>]"

section \<open>Properties\<close>

subsection \<open>What the loops compute\<close>

lemma update_permit_fields [simp]:
  "wait_list (update_permit p f s) = wait_list s"
  "trace (update_permit p f s) = trace s"
  "resources (update_permit p f s) = resources s"
  "initial_resources (update_permit p f s) = initial_resources s"
  "next_promise (update_permit p f s) = next_promise s"
  "inactive_reads (update_permit p f s) = inactive_reads s"
  "sem_stats (update_permit p f s) = sem_stats s"
  "name (update_permit p f s) = name s"
  "max_queue_length (update_permit p f s) = max_queue_length s"
  "prethrow_action (update_permit p f s) = prethrow_action s"
  "stopped (update_permit p f s) = stopped s"
  "next_permit (update_permit p f s) = next_permit s"
  by (simp_all add: update_permit_def split: option.split)

lemma admit_fields [simp]:
  "wait_list (admit x s) = tl (wait_list s)"
  "trace (admit x s) = trace s @ [admission_event x]"
  "resources (admit x s) = res_sub (resources s) (res x)"
  "initial_resources (admit x s) = initial_resources s"
  "next_promise (admit x s) = next_promise s"
  "inactive_reads (admit x s) = inactive_reads s"
  "sem_stats (admit x s) = sem_stats s"
  by (simp_all add: admit_def Let_def impl_consume_def consume_def on_admission_def
        admission_event_def)

lemma has_available_units_cong:
  "resources s = resources s' \<Longrightarrow> initial_resources s = initial_resources s'
     \<Longrightarrow> has_available_units truthy s r = has_available_units truthy s' r"
  by (simp add: has_available_units_def)

lemma res_sub_total_Cons:
  "res_sub (res_sub a (res x)) (total_res (map res xs)) = res_sub a (total_res (map res (x # xs)))"
  by (simp add: res_sub_def total_res_def)

lemma res_sub_total_Nil [simp]: "res_sub a (total_res []) = a"
  by (simp add: res_sub_def total_res_def)

lemma signal_loop_prefix:
  "\<exists>n\<le>length (wait_list s).
      wait_list (signal_loop truthy s) = drop n (wait_list s)
    \<and> trace (signal_loop truthy s) = trace s @ map admission_event (take n (wait_list s))
    \<and> resources (signal_loop truthy s)
        = res_sub (resources s) (total_res (map res (take n (wait_list s))))
    \<and> (\<forall>k<n. has_available_units truthy
                 (s\<lparr>resources := res_sub (resources s) (total_res (map res (take k (wait_list s))))\<rparr>)
                 (res (wait_list s ! k)))
    \<and> (n < length (wait_list s)
         \<longrightarrow> \<not> has_available_units truthy (signal_loop truthy s) (res (wait_list s ! n)))
    \<and> next_promise (signal_loop truthy s) = next_promise s
    \<and> initial_resources (signal_loop truthy s) = initial_resources s
    \<and> inactive_reads (signal_loop truthy s) = inactive_reads s
    \<and> sem_stats (signal_loop truthy s) = sem_stats s"
proof (induction truthy s rule: signal_loop.induct)
  case (1 truthy s)
  show ?case
  proof (cases "wait_list s \<noteq> [] \<and> has_available_units truthy s (res (hd (wait_list s)))")
    case False
    then have eq: "signal_loop truthy s = s" by (subst signal_loop.simps) auto
    show ?thesis
      unfolding eq using False
      by (intro exI[of _ 0]) (auto simp: hd_conv_nth)
  next
    case True
    then obtain x xs where wl: "wait_list s = x # xs"
      by (cases "wait_list s") auto
    from True wl have av: "has_available_units truthy s (res x)" by simp
    from True wl have eq: "signal_loop truthy s = signal_loop truthy (admit x s)"
      by (subst signal_loop.simps) simp
    from "1.IH"[OF True] wl obtain n where n: "n \<le> length xs"
      and a: "wait_list (signal_loop truthy (admit x s)) = drop n xs"
      and b: "trace (signal_loop truthy (admit x s))
                = (trace s @ [admission_event x]) @ map admission_event (take n xs)"
      and c: "resources (signal_loop truthy (admit x s))
                = res_sub (res_sub (resources s) (res x)) (total_res (map res (take n xs)))"
      and d: "\<forall>k<n. has_available_units truthy
                 ((admit x s)\<lparr>resources := res_sub (res_sub (resources s) (res x))
                                   (total_res (map res (take k xs)))\<rparr>)
                 (res (xs ! k))"
      and e: "n < length xs
         \<longrightarrow> \<not> has_available_units truthy (signal_loop truthy (admit x s)) (res (xs ! n))"
      and f: "next_promise (signal_loop truthy (admit x s)) = next_promise s"
             "initial_resources (signal_loop truthy (admit x s)) = initial_resources s"
             "inactive_reads (signal_loop truthy (admit x s)) = inactive_reads s"
             "sem_stats (signal_loop truthy (admit x s)) = sem_stats s"
      by auto
    have d': "\<forall>k<Suc n. has_available_units truthy
                 (s\<lparr>resources := res_sub (resources s) (total_res (map res (take k (x # xs))))\<rparr>)
                 (res ((x # xs) ! k))"
    proof (intro allI impI)
      fix k assume k: "k < Suc n"
      show "has_available_units truthy
                 (s\<lparr>resources := res_sub (resources s) (total_res (map res (take k (x # xs))))\<rparr>)
                 (res ((x # xs) ! k))"
      proof (cases k)
        case 0
        with av show ?thesis by (simp add: has_available_units_def)
      next
        case (Suc j)
        with k d have "has_available_units truthy
                 ((admit x s)\<lparr>resources := res_sub (res_sub (resources s) (res x))
                                   (total_res (map res (take j xs)))\<rparr>)
                 (res (xs ! j))" by simp
        then show ?thesis
          unfolding Suc by (simp add: has_available_units_def res_sub_total_Cons)
      qed
    qed
    show ?thesis
      unfolding eq wl using n a b c d' e f
      by (intro exI[of _ "Suc n"]) (simp add: res_sub_total_Cons)
  qed
qed

lemma resources_update_fields: 
  "wait_list (s\<lparr>resources := x\<rparr>) = wait_list s"
  "trace (s\<lparr>resources := x\<rparr>) = trace s"
  "resources (s\<lparr>resources := x\<rparr>) = x"
  "s\<lparr>resources := x\<rparr>\<lparr>resources := y\<rparr> = s\<lparr>resources := y\<rparr>"
  by simp_all

lemma signal_prefix: "\<exists>n\<le>length (wait_list s).
        wait_list (signal truthy s r) = drop n (wait_list s)
      \<and> trace (signal truthy s r) = trace s @ map admission_event (take n (wait_list s))
      \<and> resources (signal truthy s r)
          = res_sub (res_add (resources s) r) (total_res (map res (take n (wait_list s))))
      \<and> (\<forall>k<n. has_available_units truthy
                   (s\<lparr>resources := res_sub (res_add (resources s) r)
                                         (total_res (map res (take k (wait_list s))))\<rparr>)
                   (res (wait_list s ! k)))
      \<and> (n < length (wait_list s)
           \<longrightarrow> \<not> has_available_units truthy (signal truthy s r) (res (wait_list s ! n)))"
  using signal_loop_prefix[of "s\<lparr>resources := res_add (resources s) r\<rparr>" truthy]
  unfolding signal_def resources_update_fields 
  by (elim exE conjE, intro exI conjI) assumption+


lemma broken_loop_eq:
  "broken_loop ex s =
     s\<lparr>trace := trace s @ map (\<lambda>x. set_exception (pr x) ex) (wait_list s), wait_list := []\<rparr>"
proof (induction ex s rule: broken_loop.induct)
  case (1 ex s)
  show ?case
  proof (cases "wait_list s")
    case Nil
    have "s\<lparr>trace := trace s, wait_list := wait_list s\<rparr> = s" by simp
    with Nil show ?thesis by (subst broken_loop.simps) simp
  next
    case (Cons x xs)
    with 1 show ?thesis by (subst broken_loop.simps) simp
  qed
qed

lemma clear_inactive_reads_eq:
  "clear_inactive_reads s =
     s\<lparr>trace := trace s @ map (\<lambda>ir. close_reader_called (reader ir)) (inactive_reads s),
       inactive_reads := []\<rparr>"
proof (induction s rule: clear_inactive_reads.induct)
  case (1 s)
  show ?case
  proof (cases "inactive_reads s")
    case Nil
    have "s\<lparr>trace := trace s, inactive_reads := inactive_reads s\<rparr> = s" by simp
    with Nil show ?thesis by (subst clear_inactive_reads.simps) simp
  next
    case (Cons x xs)
    with 1 show ?thesis by (subst clear_inactive_reads.simps) (simp add: close_reader_def)
  qed
qed

lemma broken_eq: "broken s ex =
     s\<lparr>trace := trace s @
          map (\<lambda>x. set_exception (pr x) (case ex of None \<Rightarrow> broken_semaphore | Some e \<Rightarrow> e))
              (wait_list s),
       wait_list := []\<rparr>"
  unfolding broken_def broken_loop_eq ..

lemma stop_eq: "\<not> stopped s \<Longrightarrow>
        stop s = Some
          (s\<lparr>stopped := True,
             inactive_reads := [],
             trace := trace s @ map (\<lambda>ir. close_reader_called (reader ir)) (inactive_reads s)
                        @ map (\<lambda>x. set_exception (pr x) (stopped_exception s)) (wait_list s),
             wait_list := []\<rparr>)"
proof -
  assume ns: "\<not> stopped s"
  let ?s2 = "clear_inactive_reads (s\<lparr>stopped := True\<rparr>)"
  have c: "?s2 = s\<lparr>stopped := True, inactive_reads := [],
             trace := trace s @ map (\<lambda>ir. close_reader_called (reader ir)) (inactive_reads s)\<rparr>"
    unfolding clear_inactive_reads_eq by simp
  have n: "stopped_exception ?s2 = stopped_exception s"
    unfolding c stopped_exception_def by simp
  have "stop s = Some (broken ?s2 (Some (stopped_exception ?s2)))"
    using ns by (simp add: stop_def Let_def)
  also have "broken ?s2 (Some (stopped_exception ?s2)) = s\<lparr>stopped := True,
             inactive_reads := [],
             trace := trace s @ map (\<lambda>ir. close_reader_called (reader ir)) (inactive_reads s)
                        @ map (\<lambda>x. set_exception (pr x) (stopped_exception s)) (wait_list s),
             wait_list := []\<rparr>"
    unfolding n unfolding c broken_eq by simp
  finally show ?thesis .
qed

lemma permits_broken: "permits (broken s ex) = permits s"
  unfolding broken_eq by simp

lemma permits_expire: "permits (expire s k) = permits s"
  by (simp add: expire_def expiry_handler_def maybe_dump_reader_permit_diagnostics_def
        split: option.split)

subsection \<open>The order of admission over a run\<close>

lemma fifo_order_line:
  "fifo_order s \<longleftrightarrow> sorted_wrt (<) (fifo_line s) \<and> (\<forall>k \<in> set (fifo_line s). k < next_promise s)"
  by (simp add: fifo_order_def fifo_line_def)

lemma admitted_promises_append [simp]:
  "admitted_promises (a @ b) = admitted_promises a @ admitted_promises b"
  by (simp add: admitted_promises_def)

lemma admitted_promises_Nil [simp]: "admitted_promises [] = []"
  by (simp add: admitted_promises_def)

lemma admitted_promises_Cons [simp]:
  "admitted_promises (set_value k u # es) = k # admitted_promises es"
  "admitted_promises (set_exception k ex # es) = admitted_promises es"
  "admitted_promises (log_event lv msg # es) = admitted_promises es"
  "admitted_promises (prethrow_action_called # es) = admitted_promises es"
  "admitted_promises (notify_called h reason # es) = admitted_promises es"
  "admitted_promises (close_reader_called rd # es) = admitted_promises es"
  by (simp_all add: admitted_promises_def)

lemma admitted_promises_admissions [simp]:
  "admitted_promises (map admission_event xs) = map pr xs"
  by (induction xs) (simp_all add: admitted_promises_def admission_event_def)

lemma admitted_promises_exceptions [simp]:
  "admitted_promises (map (\<lambda>x. set_exception (f x) ex) xs) = []"
  by (induction xs) (simp_all add: admitted_promises_def)

lemma admitted_promises_closes [simp]:
  "admitted_promises (map (\<lambda>x. close_reader_called (f x)) xs) = []"
  by (induction xs) (simp_all add: admitted_promises_def)

lemma in_set_remove1D: "x \<in> set (remove1 y xs) \<Longrightarrow> x \<in> set xs"
  by (metis notin_set_remove1)

lemma sorted_wrt_remove1: "sorted_wrt P xs \<Longrightarrow> sorted_wrt P (remove1 x xs)"
  by (induction xs) (auto dest: notin_set_remove1)

text \<open>Steps that leave the line of promises and the next number alone.\<close>

lemma same_line_fifo_order: "same_line s s' \<Longrightarrow> fifo_order s \<Longrightarrow> fifo_order s'"
  by (simp add: same_line_def fifo_order_line)

lemma same_line_refl [simp]: "same_line s s"
  by (simp add: same_line_def)

lemma same_line_trans: "same_line s s' \<Longrightarrow> same_line s' s'' \<Longrightarrow> same_line s s''"
  by (simp add: same_line_def)

lemma same_line_update_permit [simp]: "same_line s (update_permit p f s)"
  by (simp add: same_line_def fifo_line_def)

lemma same_line_impl_consume [simp]: "same_line s (impl_consume s p r)"
  by (simp add: same_line_def fifo_line_def impl_consume_def consume_def)

lemma same_line_signal_loop: "same_line s (signal_loop truthy s)"
proof -
  from signal_loop_prefix[of s truthy] obtain n where
    "wait_list (signal_loop truthy s) = drop n (wait_list s)"
    "trace (signal_loop truthy s) = trace s @ map admission_event (take n (wait_list s))"
    "next_promise (signal_loop truthy s) = next_promise s"
    by blast
  then show ?thesis
    by (simp add: same_line_def fifo_line_def flip: map_append)
qed

lemma same_line_signal [simp]: "same_line s (signal truthy s r)"
proof -
  have "same_line (s\<lparr>resources := res_add (resources s) r\<rparr>) (signal truthy s r)"
    unfolding signal_def by (rule same_line_signal_loop)
  then show ?thesis by (simp add: same_line_def fifo_line_def)
qed

lemma same_line_impl_signal [simp]: "same_line s (impl_signal truthy s p r)"
  unfolding impl_signal_def
  by (rule same_line_trans[OF same_line_update_permit same_line_signal])

lemma same_line_close_reader [simp]: "same_line s (close_reader s rd)"
  by (simp add: same_line_def fifo_line_def close_reader_def)

lemma same_line_detach [simp]: "same_line s (snd (detach_inactive_reader s ir reason))"
  by (simp add: same_line_def fifo_line_def detach_inactive_reader_def Let_def
        split: option.split evict_reason.split prod.split)

lemma same_line_evict [simp]: "same_line s (evict s ir reason)"
proof -
  obtain rd s1 where d: "detach_inactive_reader s ir reason = (rd, s1)"
    by (cases "detach_inactive_reader s ir reason")
  with same_line_detach[of s ir reason] have "same_line s s1" by simp
  then show ?thesis
    unfolding evict_def d by (simp add: same_line_def fifo_line_def close_reader_def)
qed

lemma same_line_evict_readers_step [simp]: "same_line s (evict_readers_step s)"
proof -
  obtain rd s1 where d: "detach_inactive_reader s (hd (inactive_reads s)) permit_reason = (rd, s1)"
    by (cases "detach_inactive_reader s (hd (inactive_reads s)) permit_reason")
  with same_line_detach[of s "hd (inactive_reads s)" permit_reason] have "same_line s s1" by simp
  then show ?thesis
    unfolding evict_readers_step_def d by (simp add: same_line_def fifo_line_def)
qed

lemma same_line_resource_units_reset [simp]:
  "same_line s (snd (resource_units_reset truthy s u r))"
  unfolding resource_units_reset_def Let_def
  by (auto intro: same_line_trans[OF same_line_impl_consume same_line_impl_signal])

lemma same_line_resource_units_dtor [simp]: "same_line s (resource_units_dtor truthy s u)"
  by (simp add: resource_units_dtor_def)

lemma same_line_impl_destroy [simp]: "same_line s (impl_destroy truthy s p)"
proof (cases "permits s p")
  case None
  then show ?thesis by (simp add: impl_destroy_def)
next
  case (Some i)
  have "same_line s (s\<lparr>trace := trace s @ [log_event error_level (permit_leak (description i) (permit_resources i))]\<rparr>)"
    by (simp add: same_line_def fifo_line_def)
  from same_line_trans[OF this same_line_impl_signal]
  show ?thesis using Some
    by (simp add: impl_destroy_def Let_def same_line_def fifo_line_def)
qed

lemma same_line_register [simp]: "same_line s (snd (register_inactive_read s rd af))"
  by (simp add: register_inactive_read_def Let_def same_line_def fifo_line_def close_reader_def
        on_register_as_inactive_def)

lemma same_line_set_notify_handler [simp]: "same_line s (set_notify_handler s k h ttl_opt)"
  by (simp add: set_notify_handler_def same_line_def fifo_line_def)

lemma same_line_unregister [simp]: "same_line s (snd (unregister_inactive_read s irh))"
  by (simp add: unregister_inactive_read_def Let_def same_line_def fifo_line_def
        on_unregister_as_inactive_def split: option.split)

lemma same_line_abandon [simp]: "same_line s (abandon s irh)"
  by (simp add: abandon_def Let_def same_line_def fifo_line_def close_reader_def
        split: option.split)

lemma same_line_try_evict_one [simp]: "same_line s (snd (try_evict_one_inactive_read s reason))"
  by (simp add: try_evict_one_inactive_read_def)

lemma same_line_clear_inactive_reads [simp]: "same_line s (clear_inactive_reads s)"
  by (simp add: clear_inactive_reads_eq same_line_def fifo_line_def)

lemma same_line_make_permit [simp]: "same_line s (snd (make_permit s sch opn))"
  by (simp add: make_permit_def same_line_def fifo_line_def)

lemma same_line_consume [simp]: "same_line s (consume s r)"
  by (simp add: consume_def same_line_def fifo_line_def)

text \<open>Steps that change the line.\<close>

lemma fifo_order_broken: "fifo_order s \<Longrightarrow> fifo_order (broken s ex)"
  by (simp add: broken_def broken_loop_eq fifo_order_def sorted_wrt_append)

lemma fifo_order_expire: "fifo_order s \<Longrightarrow> fifo_order (expire s k)"
  by (auto simp: expire_def expiry_handler_def maybe_dump_reader_permit_diagnostics_def
        fifo_order_def sorted_wrt_append sorted_wrt_map sorted_wrt_remove1
        split: option.split dest: in_set_remove1D)

lemma fifo_order_enqueue_waiter: "fifo_order s \<Longrightarrow> fifo_order (snd (enqueue_waiter s p r t))"
  by (auto simp: enqueue_waiter_def Let_def maybe_dump_reader_permit_diagnostics_def
        on_waiting_def fifo_order_def sorted_wrt_append less_Suc_eq)

lemma fifo_order_do_wait_admission:
  "fifo_order s \<Longrightarrow> fifo_order (snd (do_wait_admission truthy s p mem t))"
proof -
  assume inv: "fifo_order s"
  have fast: "fifo_order (impl_consume (on_admission p s) p r)" for r
    by (rule same_line_fifo_order[OF _ inv])
       (simp add: on_admission_def same_line_trans[OF same_line_update_permit same_line_impl_consume])
  obtain fut s1 where e: "enqueue_waiter s p \<lparr>count = 1, memory = sint mem\<rparr> t = (fut, s1)"
    by (cases "enqueue_waiter s p \<lparr>count = 1, memory = sint mem\<rparr> t")
  with fifo_order_enqueue_waiter[OF inv, of p "\<lparr>count = 1, memory = sint mem\<rparr>" t]
  have s1: "fifo_order s1" by simp
  then have s2: "fifo_order (evict_readers_in_background s1)"
    unfolding evict_readers_in_background_def
    by (rule same_line_fifo_order[OF same_line_evict_readers_step])
  show ?thesis
    using fast s1 s2 e
    by (simp add: do_wait_admission_def Let_def resource_units_ctor_def)
qed

lemma fifo_order_stop: "fifo_order s \<Longrightarrow> stop s = Some s' \<Longrightarrow> fifo_order s'"
proof -
  assume inv: "fifo_order s" and st: "stop s = Some s'"
  have "same_line s (s\<lparr>stopped := True\<rparr>)" by (simp add: same_line_def fifo_line_def)
  from same_line_trans[OF this same_line_clear_inactive_reads]
  have "fifo_order (clear_inactive_reads (s\<lparr>stopped := True\<rparr>))"
    by (rule same_line_fifo_order[OF _ inv])
  then show ?thesis
    using st by (auto simp: stop_def Let_def fifo_order_broken split: if_splits)
qed

lemma fifo_order_exec: "fifo_order s \<Longrightarrow> fifo_order (exec truthy c s)"
proof (cases c)
  case (call_wait_admission p mem t)
  assume "fifo_order s"
  then show ?thesis unfolding call_wait_admission by (simp add: fifo_order_do_wait_admission)
next
  case (call_ttl_elapsed k)
  assume "fifo_order s"
  then show ?thesis unfolding call_ttl_elapsed
    by (auto split: option.split intro: same_line_fifo_order[OF same_line_evict])
next
  case (call_expire k)
  assume "fifo_order s"
  then show ?thesis unfolding call_expire by (simp add: fifo_order_expire)
next
  case (call_broken ex)
  assume "fifo_order s"
  then show ?thesis unfolding call_broken by (simp add: fifo_order_broken)
next
  case call_stop
  assume "fifo_order s"
  then show ?thesis unfolding call_stop by (auto split: option.split intro: fifo_order_stop)
qed (auto intro: same_line_fifo_order[rotated])

lemma fifo_order_run: "fifo_order s \<Longrightarrow> fifo_order (run truthy cs s)"
  unfolding run_def
  by (induction cs arbitrary: s) (simp_all add: fifo_order_exec)

lemma fifo_order_make_semaphore: "fifo_order (make_semaphore c m nm ml pa)"
  by (simp add: fifo_order_def make_semaphore_def)

subsection \<open>The example states, evaluated\<close>

lemmas eval_defs =
  run_def make_semaphore_def make_permit_def do_wait_admission_def has_available_units_def
  resources_bool_def res_ge_def res_sub_def res_add_def no_resources_def
  resource_units_ctor_def impl_consume_def consume_def on_admission_def on_waiting_def
  update_permit_def enqueue_waiter_def evict_readers_in_background_def evict_readers_step_def
  maybe_dump_reader_permit_diagnostics_def Let_def

lemmas eval_inactive_defs =
  make_semaphore_no_limits_def register_inactive_read_def on_register_as_inactive_def
  set_notify_handler_def close_reader_def try_evict_one_inactive_read_def evict_def
  detach_inactive_reader_def

lemmas eval_signal_defs =
  signal_def signal_loop.simps admit_def impl_signal_def resource_units_dtor_def
  resource_units_reset_def total_res_def admission_event_def

lemma example_idle_fields:
  "resources example_idle = \<lparr>count = 2, memory = 1024\<rparr>"
  "initial_resources example_idle = \<lparr>count = 2, memory = 1024\<rparr>"
  "wait_list example_idle = []"
  "inactive_reads example_idle = []"
  "trace example_idle = []"
  "sem_stats example_idle = \<lparr>permit_based_evictions = 0, time_based_evictions = 0,
                   inactive_reads_stat = 0, total_reads_shed_due_to_overload = 0\<rparr>"
  "permits example_idle 0 = Some \<lparr>schema = None, op_name = ''read'',
       permit_resources = \<lparr>count = 0, memory = 0\<rparr>, permit_state = active\<rparr>"
  by (simp_all add: example_idle_def eval_defs)

lemma example_busy_fields:
  "resources example_busy = \<lparr>count = 0, memory = 24\<rparr>"
  "initial_resources example_busy = \<lparr>count = 2, memory = 1024\<rparr>"
  "wait_list example_busy =
     [\<lparr>pr = 0, permit = 2, res = \<lparr>count = 1, memory = 600\<rparr>, timeout = 0\<rparr>,
      \<lparr>pr = 1, permit = 3, res = \<lparr>count = 1, memory = 10\<rparr>, timeout = 0\<rparr>]"
  "inactive_reads example_busy = []"
  "trace example_busy = []"
  "name example_busy = ''sem''"
  "max_queue_length example_busy = 2"
  "prethrow_action example_busy = True"
  "next_promise example_busy = 2"
  "stopped example_busy = False"
  "sem_stats example_busy = \<lparr>permit_based_evictions = 0, time_based_evictions = 0,
                   inactive_reads_stat = 0, total_reads_shed_due_to_overload = 0\<rparr>"
  "permits example_busy 0 = Some \<lparr>schema = None, op_name = ''read'',
       permit_resources = \<lparr>count = 1, memory = 500\<rparr>, permit_state = active\<rparr>"
  "permits example_busy 2 = Some \<lparr>schema = None, op_name = ''read'',
       permit_resources = \<lparr>count = 0, memory = 0\<rparr>, permit_state = waiting\<rparr>"
  "permits example_busy 3 = Some \<lparr>schema = None, op_name = ''read'',
       permit_resources = \<lparr>count = 0, memory = 0\<rparr>, permit_state = waiting\<rparr>"
  "permits example_busy 4 = Some \<lparr>schema = None, op_name = ''read'',
       permit_resources = \<lparr>count = 0, memory = 0\<rparr>, permit_state = active\<rparr>"
  by (simp_all add: example_busy_def eval_defs)



lemma example_parked_fields:
  "inactive_reads example_parked =
     [\<lparr>reader = \<lparr>reader_id = 0, reader_permit = 0\<rparr>, notify_handler = Some (7, False), ttl = None\<rparr>]"
  "sem_stats example_parked = \<lparr>permit_based_evictions = 0, time_based_evictions = 0,
                   inactive_reads_stat = 1, total_reads_shed_due_to_overload = 0\<rparr>"
  "trace example_parked = []"
  "wait_list example_parked = []"
  "stopped example_parked = False"
  "name example_parked = ''sem''"
  "permits example_parked 0 = Some \<lparr>schema = None, op_name = ''read'',
       permit_resources = \<lparr>count = 0, memory = 0\<rparr>, permit_state = inactive\<rparr>"
  by (simp_all add: example_parked_def eval_defs eval_inactive_defs)

subsection \<open>The cast of the memory argument\<close>

lemma ssize_cast_small: "unat (mem :: 64 word) < 2 ^ 63 \<Longrightarrow> sint mem = int (unat mem)"
proof -
  assume a: "unat mem < 2 ^ 63"
  have u: "uint mem = int (unat mem)" by (rule uint_nat)
  from a have "int (unat mem) < int (2 ^ 63)" by (simp only: of_nat_less_iff)
  then have "int (unat mem) < 2 ^ 63" by simp
  with u have lt: "uint mem < 2 ^ 63" by simp
  have ge: "- (2 ^ 63) \<le> uint mem"
  proof -
    have "- (2 ^ 63) \<le> (0::int)" by simp
    also have "0 \<le> uint mem" by (rule uint_ge_0)
    finally show ?thesis .
  qed
  have l: "LENGTH(64) - Suc 0 = 63" by simp
  have "sint mem = signed_take_bit (LENGTH(64) - Suc 0) (uint mem)" by (rule sint_uint)
  also have "\<dots> = signed_take_bit 63 (uint mem)" by (simp only: l)
  also have "\<dots> = uint mem"
    by (rule signed_take_bit_int_eq_self[OF ge lt])
  finally show ?thesis by (simp only: u)
qed

subsection \<open>The admission predicate\<close>

text \<open>
  C1. A request \<open>r\<close> has available units exactly when the available resources are at
  least \<open>r\<close> in both components and convert to true, or when the available count equals
  the initial count. With the conversion to \<^verbatim>\<open>bool\<close> that the specification gives, the
  first case is: the available resources are at least \<open>r\<close> and both their components are
  positive. In particular, whatever the conversion is, when the available count equals
  the initial count, a permit asking for one slot and an amount of memory above the
  initial memory has available units, and when nobody waits \<^verbatim>\<open>do_wait_admission\<close>
  admits it at once.
\<close>

theorem has_available_units_iff:
  "(has_available_units truthy s r \<longleftrightarrow>
      (res_ge (resources s) r \<and> truthy (resources s))
      \<or> count (resources s) = count (initial_resources s))
   \<and> (has_available_units resources_bool s r \<longleftrightarrow>
      (res_ge (resources s) r \<and> count (resources s) > 0 \<and> memory (resources s) > 0)
      \<or> count (resources s) = count (initial_resources s))
   \<and> (count (resources s) = count (initial_resources s)
        \<and> sint mem > memory (initial_resources s)
      \<longrightarrow> has_available_units truthy s \<lparr>count = 1, memory = sint mem\<rparr>
          \<and> (wait_list s = [] \<longrightarrow>
               fst (do_wait_admission truthy s p mem t)
                 = ready_future \<lparr>ru_permit = p, ru_resources = \<lparr>count = 1, memory = sint mem\<rparr>\<rparr>))"
  by (auto simp: has_available_units_def resources_bool_def do_wait_admission_def
        resource_units_ctor_def Let_def)

theorem has_available_units_iff_witness:
  "count (resources ((make_semaphore 2 100 ''sem'' 10 False)\<lparr>resources := \<lparr>count = 2, memory = - 50\<rparr>\<rparr>))
     = count (initial_resources (make_semaphore 2 100 ''sem'' 10 False))
   \<and> sint (5000 :: 64 word) > memory (initial_resources (make_semaphore 2 100 ''sem'' 10 False))
   \<and> wait_list ((make_semaphore 2 100 ''sem'' 10 False)\<lparr>resources := \<lparr>count = 2, memory = - 50\<rparr>\<rparr>) = []
   \<and> has_available_units resources_bool
        ((make_semaphore 2 100 ''sem'' 10 False)\<lparr>resources := \<lparr>count = 2, memory = - 50\<rparr>\<rparr>)
        \<lparr>count = 1, memory = sint (5000 :: 64 word)\<rparr>
   \<and> fst (do_wait_admission resources_bool
        ((make_semaphore 2 100 ''sem'' 10 False)\<lparr>resources := \<lparr>count = 2, memory = - 50\<rparr>\<rparr>) 7 5000 0)
        = ready_future \<lparr>ru_permit = 7, ru_resources = \<lparr>count = 1, memory = 5000\<rparr>\<rparr>"
  using has_available_units_iff
    [of resources_bool
        "(make_semaphore 2 100 ''sem'' 10 False)\<lparr>resources := \<lparr>count = 2, memory = - 50\<rparr>\<rparr>"
        "\<lparr>count = 1, memory = 5000\<rparr>" 5000 7 0]
  by (simp add: make_semaphore_def)

subsection \<open>Admission without waiting\<close>

text \<open>
  C2. When the wait list is empty and the request of one slot and \<open>mem\<close> bytes has
  available units, \<^verbatim>\<open>do_wait_admission\<close> returns a future that is already resolved with
  the units of the permit for that request. The permit is active and holds the request on
  top of what it held, the available resources are lower by the request, and nothing else
  of the state changes: the wait list stays empty, no promise is made and no event
  happens. The memory of the request is \<open>mem\<close> as the code casts it to the signed type,
  which is \<open>mem\<close> itself below \<open>2 ^ 63\<close>.
\<close>

theorem do_wait_admission_fast_path:
  assumes "wait_list s = []"
    and "has_available_units truthy s \<lparr>count = 1, memory = sint mem\<rparr>"
  shows "do_wait_admission truthy s p mem t =
           (ready_future \<lparr>ru_permit = p, ru_resources = \<lparr>count = 1, memory = sint mem\<rparr>\<rparr>,
            s\<lparr>permits := (permits s)(p := map_option
                   (\<lambda>i. i\<lparr>permit_state := active,
                          permit_resources := res_add (permit_resources i) \<lparr>count = 1, memory = sint mem\<rparr>\<rparr>)
                   (permits s p)),
              resources := res_sub (resources s) \<lparr>count = 1, memory = sint mem\<rparr>\<rparr>)
         \<and> (unat mem < 2 ^ 63 \<longrightarrow> sint mem = int (unat mem))"
  using assms
  by (cases "permits s p")
     (simp_all add: do_wait_admission_def Let_def resource_units_ctor_def impl_consume_def
        consume_def on_admission_def update_permit_def fun_upd_idem ssize_cast_small)

theorem do_wait_admission_fast_path_witness:
  "wait_list example_idle = []
   \<and> has_available_units resources_bool example_idle \<lparr>count = 1, memory = sint (100 :: 64 word)\<rparr>
   \<and> fst (do_wait_admission resources_bool example_idle 0 100 0)
        = ready_future \<lparr>ru_permit = 0, ru_resources = \<lparr>count = 1, memory = 100\<rparr>\<rparr>
   \<and> resources (snd (do_wait_admission resources_bool example_idle 0 100 0))
        = \<lparr>count = 1, memory = 924\<rparr>
   \<and> permits (snd (do_wait_admission resources_bool example_idle 0 100 0)) 0
        = Some \<lparr>schema = None, op_name = ''read'',
                permit_resources = \<lparr>count = 1, memory = 100\<rparr>, permit_state = active\<rparr>
   \<and> wait_list (snd (do_wait_admission resources_bool example_idle 0 100 0)) = []
   \<and> trace (snd (do_wait_admission resources_bool example_idle 0 100 0)) = []"
proof -
  have h1: "wait_list example_idle = []" by (simp add: example_idle_fields)
  have h2: "has_available_units resources_bool example_idle \<lparr>count = 1, memory = sint (100 :: 64 word)\<rparr>"
    by (simp add: has_available_units_def example_idle_fields)
  show ?thesis
    using h1 h2 do_wait_admission_fast_path [OF h1 h2, of 0 0]
    by (simp add: example_idle_fields res_sub_def res_add_def)
qed

subsection \<open>Admission in order of arrival\<close>

text \<open>
  C3. \<^verbatim>\<open>signal\<close> adds \<open>r\<close> to the available resources and then admits a prefix of the
  wait list, in order: there is a number \<open>n\<close> such that exactly the first \<open>n\<close> entries
  are popped, their promises receive their units in the order of the list, each of them
  had available units when its turn came, and the entry left at the head, if any, has no
  available units afterwards (whatever the entries behind it ask for). A new waiter is
  put at the back of the list, under the next promise number. Over any run from a new
  semaphore, the promises admitted from the wait list were admitted in the order of their
  arrival and arrived before every promise still waiting.
\<close>

theorem fifo_admission:
  "(\<exists>n\<le>length (wait_list s).
        wait_list (signal truthy s r) = drop n (wait_list s)
      \<and> trace (signal truthy s r) = trace s @ map admission_event (take n (wait_list s))
      \<and> resources (signal truthy s r)
          = res_sub (res_add (resources s) r) (total_res (map res (take n (wait_list s))))
      \<and> (\<forall>k<n. has_available_units truthy
                   (s\<lparr>resources := res_sub (res_add (resources s) r)
                                         (total_res (map res (take k (wait_list s))))\<rparr>)
                   (res (wait_list s ! k)))
      \<and> (n < length (wait_list s)
           \<longrightarrow> \<not> has_available_units truthy (signal truthy s r) (res (wait_list s ! n))))
   \<and> (length (wait_list s) < max_queue_length s \<longrightarrow>
        fst (enqueue_waiter s p q t) = pending_future (next_promise s)
        \<and> wait_list (snd (enqueue_waiter s p q t))
            = wait_list s @ [\<lparr>pr = next_promise s, permit = p, res = q, timeout = t\<rparr>]
        \<and> next_promise (snd (enqueue_waiter s p q t)) = Suc (next_promise s))
   \<and> sorted_wrt (<)
        (admitted_promises (trace (run truthy cs (make_semaphore c m nm ml pa)))
         @ map pr (wait_list (run truthy cs (make_semaphore c m nm ml pa))))"
proof -
  have b: "length (wait_list s) < max_queue_length s \<longrightarrow>
        fst (enqueue_waiter s p q t) = pending_future (next_promise s)
        \<and> wait_list (snd (enqueue_waiter s p q t))
            = wait_list s @ [\<lparr>pr = next_promise s, permit = p, res = q, timeout = t\<rparr>]
        \<and> next_promise (snd (enqueue_waiter s p q t)) = Suc (next_promise s)"
    by (simp add: enqueue_waiter_def Let_def on_waiting_def)
  have "fifo_order (run truthy cs (make_semaphore c m nm ml pa))"
    by (rule fifo_order_run[OF fifo_order_make_semaphore])
  then have c: "sorted_wrt (<)
        (admitted_promises (trace (run truthy cs (make_semaphore c m nm ml pa)))
         @ map pr (wait_list (run truthy cs (make_semaphore c m nm ml pa))))"
    unfolding fifo_order_def by (rule conjunct1)
  show ?thesis by (rule conjI[OF signal_prefix conjI[OF b c]])
qed

theorem fifo_admission_witness:
  "length (wait_list example_busy) = 2
   \<and> wait_list (signal resources_bool example_busy \<lparr>count = 1, memory = 500\<rparr>)
        = wait_list example_busy
   \<and> trace (signal resources_bool example_busy \<lparr>count = 1, memory = 500\<rparr>) = []
   \<and> resources (signal resources_bool example_busy \<lparr>count = 1, memory = 500\<rparr>)
        = \<lparr>count = 1, memory = 524\<rparr>
   \<and> \<not> has_available_units resources_bool
          (signal resources_bool example_busy \<lparr>count = 1, memory = 500\<rparr>)
          (res (wait_list example_busy ! 0))
   \<and> has_available_units resources_bool
          (signal resources_bool example_busy \<lparr>count = 1, memory = 500\<rparr>)
          (res (wait_list example_busy ! 1))
   \<and> length (wait_list example_idle) < max_queue_length example_idle
   \<and> wait_list (snd (enqueue_waiter example_idle 0 \<lparr>count = 1, memory = 10\<rparr> 0))
        = [\<lparr>pr = 0, permit = 0, res = \<lparr>count = 1, memory = 10\<rparr>, timeout = 0\<rparr>]
   \<and> admitted_promises (trace (run resources_bool example_releases
          (make_semaphore 2 1024 ''sem'' 2 True))) = [0, 1]
   \<and> sorted_wrt (<) [0 :: nat, 1]"
  using fifo_admission [of example_busy resources_bool "\<lparr>count = 1, memory = 500\<rparr>"
          0 "\<lparr>count = 1, memory = 10\<rparr>" 0 example_releases 2 1024 "''sem''" 2 True]
        fifo_admission [of example_idle resources_bool "\<lparr>count = 1, memory = 500\<rparr>"
          0 "\<lparr>count = 1, memory = 10\<rparr>" 0 example_releases 2 1024 "''sem''" 2 True]
  by (simp add: example_busy_fields example_idle_fields example_releases_def
        example_idle_def eval_defs eval_signal_defs)

subsection \<open>Overload\<close>

text \<open>
  C4. When \<^verbatim>\<open>do_wait_admission\<close> cannot admit at once and the wait list holds at least
  \<open>max_queue_length\<close> entries, the call returns a future that already holds the
  overload error (a runtime error), the counter of reads shed due to overload goes up by
  one, the prethrow action is called if one is set, a diagnostics dump is requested, and
  nothing else changes: nothing is enqueued, and the available resources, the wait list and
  the permits are as before.
\<close>

theorem do_wait_admission_overload:
  assumes "\<not> (wait_list s = [] \<and> has_available_units truthy s \<lparr>count = 1, memory = sint mem\<rparr>)"
    and "length (wait_list s) \<ge> max_queue_length s"
  shows "do_wait_admission truthy s p mem t =
           (exception_future (runtime_error (name s @ '': restricted mutation reader queue overload'')),
            s\<lparr>sem_stats := (sem_stats s)\<lparr>total_reads_shed_due_to_overload :=
                              total_reads_shed_due_to_overload (sem_stats s) + 1\<rparr>,
              trace := trace s @ (if prethrow_action s then [prethrow_action_called] else [])
                         @ [log_event info_level (permit_diagnostics ''wait queue overloaded'')]\<rparr>)"
  using assms
  by (auto simp: do_wait_admission_def Let_def enqueue_waiter_def
        maybe_dump_reader_permit_diagnostics_def evict_readers_in_background_def
        evict_readers_step_def)

theorem do_wait_admission_overload_witness:
  "\<not> (wait_list example_busy = []
        \<and> has_available_units resources_bool example_busy \<lparr>count = 1, memory = sint (100 :: 64 word)\<rparr>)
   \<and> max_queue_length example_busy \<le> length (wait_list example_busy)
   \<and> fst (do_wait_admission resources_bool example_busy 4 100 0)
        = exception_future (runtime_error ''sem: restricted mutation reader queue overload'')
   \<and> total_reads_shed_due_to_overload (sem_stats (snd (do_wait_admission resources_bool example_busy 4 100 0))) = 1
   \<and> trace (snd (do_wait_admission resources_bool example_busy 4 100 0))
        = [prethrow_action_called, log_event info_level (permit_diagnostics ''wait queue overloaded'')]
   \<and> wait_list (snd (do_wait_admission resources_bool example_busy 4 100 0)) = wait_list example_busy
   \<and> resources (snd (do_wait_admission resources_bool example_busy 4 100 0)) = resources example_busy
   \<and> permits (snd (do_wait_admission resources_bool example_busy 4 100 0)) = permits example_busy"
proof -
  have h1: "\<not> (wait_list example_busy = []
        \<and> has_available_units resources_bool example_busy \<lparr>count = 1, memory = sint (100 :: 64 word)\<rparr>)"
    by (simp add: example_busy_fields)
  have h2: "max_queue_length example_busy \<le> length (wait_list example_busy)"
    by (simp add: example_busy_fields)
  show ?thesis
    using h1 h2 do_wait_admission_overload [OF h1 h2, of 4 0]
    by (simp add: example_busy_fields)
qed

subsection \<open>The counter of inactive reads\<close>

text \<open>
  C5. The claim is that \<open>inactive_reads_stat\<close> equals the length of the list of inactive
  reads at all times. Registering increments it, and evicting and unregistering decrement
  it, but \<^verbatim>\<open>clear_inactive_reads\<close> empties the list and leaves the counter alone: after
  one reader is registered on a semaphore without limits and the inactive reads are
  cleared, the list is empty and the counter is one. The same holds after \<^verbatim>\<open>stop\<close>,
  which clears the inactive reads.
\<close>

theorem clear_inactive_reads_keeps_counter:
  "length (inactive_reads example_parked) = 1
   \<and> inactive_reads_stat (sem_stats example_parked) = 1
   \<and> inactive_reads (clear_inactive_reads example_parked) = []
   \<and> inactive_reads_stat (sem_stats (clear_inactive_reads example_parked)) = 1
   \<and> map_option inactive_reads (stop example_parked) = Some []
   \<and> map_option (\<lambda>s. inactive_reads_stat (sem_stats s)) (stop example_parked) = Some 1"
  by (simp add: clear_inactive_reads_eq stop_eq example_parked_fields)

subsection \<open>Evicting one inactive read\<close>

text \<open>
  C6, as stated, fails for the reason \<^verbatim>\<open>manual\<close>: evicting the inactive read of
  \<open>example_parked\<close> for that reason returns true and decrements the counter of inactive
  reads, and no eviction counter moves.
\<close>

theorem try_evict_one_manual_counterexample:
  "fst (try_evict_one_inactive_read example_parked manual_reason) = True
   \<and> sem_stats example_parked =
       \<lparr>permit_based_evictions = 0, time_based_evictions = 0,
        inactive_reads_stat = 1, total_reads_shed_due_to_overload = 0\<rparr>
   \<and> sem_stats (snd (try_evict_one_inactive_read example_parked manual_reason)) =
       \<lparr>permit_based_evictions = 0, time_based_evictions = 0,
        inactive_reads_stat = 0, total_reads_shed_due_to_overload = 0\<rparr>"
  by (simp add: eval_inactive_defs example_parked_fields Let_def)

text \<open>
  C6, amended. \<^verbatim>\<open>try_evict_one_inactive_read\<close> returns false and changes nothing when
  the list of inactive reads is empty. Otherwise it returns true, pops the head of the
  list, calls its notify handler with the reason if one is set (logging an error if the
  handler throws), starts closing the reader in the background, decrements the counter of
  inactive reads, and increments the counter of permit-based evictions for the reason
  \<^verbatim>\<open>permit\<close> and of time-based evictions for the reason \<^verbatim>\<open>time\<close>; for the reason
  \<^verbatim>\<open>manual\<close> it increments no eviction counter.
\<close>

theorem try_evict_one_inactive_read_effect:
  "(inactive_reads s = [] \<longrightarrow> try_evict_one_inactive_read s reason = (False, s))
   \<and> (inactive_reads s = ir # irs \<longrightarrow>
        try_evict_one_inactive_read s reason =
          (True,
           s\<lparr>inactive_reads := irs,
             sem_stats := (sem_stats s)
               \<lparr>permit_based_evictions := permit_based_evictions (sem_stats s)
                                            + (if reason = permit_reason then 1 else 0),
                time_based_evictions := time_based_evictions (sem_stats s)
                                            + (if reason = time_reason then 1 else 0),
                inactive_reads_stat := inactive_reads_stat (sem_stats s) - 1\<rparr>,
             trace := trace s @ notify_events ir reason (name s) @ [close_reader_called (reader ir)]\<rparr>))"
  by (cases reason; cases "notify_handler ir")
     (auto simp: try_evict_one_inactive_read_def evict_def detach_inactive_reader_def
        close_reader_def notify_events_def Let_def)

theorem try_evict_one_inactive_read_effect_witness:
  "inactive_reads example_parked =
      [\<lparr>reader = \<lparr>reader_id = 0, reader_permit = 0\<rparr>, notify_handler = Some (7, False), ttl = None\<rparr>]
   \<and> fst (try_evict_one_inactive_read example_parked time_reason) = True
   \<and> inactive_reads (snd (try_evict_one_inactive_read example_parked time_reason)) = []
   \<and> sem_stats (snd (try_evict_one_inactive_read example_parked time_reason)) =
       \<lparr>permit_based_evictions = 0, time_based_evictions = 1,
        inactive_reads_stat = 0, total_reads_shed_due_to_overload = 0\<rparr>
   \<and> trace (snd (try_evict_one_inactive_read example_parked time_reason)) =
       [notify_called 7 time_reason, close_reader_called \<lparr>reader_id = 0, reader_permit = 0\<rparr>]
   \<and> try_evict_one_inactive_read (make_semaphore_no_limits ''sem'') time_reason
       = (False, make_semaphore_no_limits ''sem'')"
  using try_evict_one_inactive_read_effect
          [of example_parked time_reason
              "\<lparr>reader = \<lparr>reader_id = 0, reader_permit = 0\<rparr>, notify_handler = Some (7, False), ttl = None\<rparr>"
              "[]"]
        try_evict_one_inactive_read_effect [of "make_semaphore_no_limits ''sem''" time_reason]
  by (simp add: example_parked_fields notify_events_def make_semaphore_no_limits_def
        make_semaphore_def)

subsection \<open>Registering an inactive read that is evicted at once\<close>

text \<open>
  C7, as stated, fails for the allocation failure: on \<open>example_idle\<close>, where nobody waits
  and memory is available, a registration whose allocation fails returns a null handle,
  and the counter of permit-based evictions is zero before and after.
\<close>

theorem register_inactive_read_alloc_failure_counterexample:
  "wait_list example_idle = [] \<and> memory (resources example_idle) > 0
   \<and> fst (register_inactive_read example_idle \<lparr>reader_id = 0, reader_permit = 0\<rparr> True) = None
   \<and> permit_based_evictions (sem_stats example_idle) = 0
   \<and> permit_based_evictions
        (sem_stats (snd (register_inactive_read example_idle \<lparr>reader_id = 0, reader_permit = 0\<rparr> True))) = 0"
  by (simp add: register_inactive_read_def close_reader_def example_idle_fields Let_def)

text \<open>
  C7, amended. When waiters are pending or the available memory is not positive,
  \<^verbatim>\<open>register_inactive_read\<close> returns a null handle, increments the counter of
  permit-based evictions and starts closing the reader, and changes nothing else. When
  nobody waits, memory is available and the allocation fails, it returns a null handle,
  logs a warning and starts closing the reader, and changes nothing else: no counter is
  incremented.
\<close>

theorem register_inactive_read_eviction:
  "(wait_list s \<noteq> [] \<or> memory (resources s) \<le> 0 \<longrightarrow>
      register_inactive_read s rd alloc_fails =
        (None,
         s\<lparr>sem_stats := (sem_stats s)
              \<lparr>permit_based_evictions := permit_based_evictions (sem_stats s) + 1\<rparr>,
           trace := trace s @ [close_reader_called rd]\<rparr>))
   \<and> (wait_list s = [] \<and> memory (resources s) > 0 \<longrightarrow>
      register_inactive_read s rd True =
        (None,
         s\<lparr>trace := trace s @ [log_event warn_level registering_inactive_read_failed,
                               close_reader_called rd]\<rparr>))"
  by (auto simp: register_inactive_read_def close_reader_def Let_def)

theorem register_inactive_read_eviction_witness:
  "wait_list example_busy \<noteq> []
   \<and> register_inactive_read example_busy \<lparr>reader_id = 0, reader_permit = 0\<rparr> False =
        (None,
         example_busy\<lparr>sem_stats := \<lparr>permit_based_evictions = 1, time_based_evictions = 0,
                   inactive_reads_stat = 0, total_reads_shed_due_to_overload = 0\<rparr>,
           trace := [close_reader_called \<lparr>reader_id = 0, reader_permit = 0\<rparr>]\<rparr>)
   \<and> wait_list example_idle = [] \<and> memory (resources example_idle) > 0
   \<and> register_inactive_read example_idle \<lparr>reader_id = 0, reader_permit = 0\<rparr> True =
        (None,
         example_idle\<lparr>trace := [log_event warn_level registering_inactive_read_failed,
                               close_reader_called \<lparr>reader_id = 0, reader_permit = 0\<rparr>]\<rparr>)"
  using register_inactive_read_eviction [of example_busy "\<lparr>reader_id = 0, reader_permit = 0\<rparr>" False]
        register_inactive_read_eviction [of example_idle "\<lparr>reader_id = 0, reader_permit = 0\<rparr>"]
  by (simp add: example_busy_fields example_idle_fields)

subsection \<open>Breaking the semaphore\<close>

text \<open>
  C8, as stated, fails for the waiters that come later: after \<^verbatim>\<open>broken\<close> has failed the
  two waiters of \<open>example_busy\<close>, a further permit that asks for admission is put in the
  wait list under the promise number 2, and no exception is set for that promise.
\<close>

theorem broken_later_waiter_counterexample:
  "wait_list (broken example_busy None) = []
   \<and> trace (broken example_busy None)
        = [set_exception 0 broken_semaphore, set_exception 1 broken_semaphore]
   \<and> fst (do_wait_admission resources_bool (broken example_busy None) 4 100 0) = pending_future 2
   \<and> wait_list (snd (do_wait_admission resources_bool (broken example_busy None) 4 100 0))
        = [\<lparr>pr = 2, permit = 4, res = \<lparr>count = 1, memory = 100\<rparr>, timeout = 0\<rparr>]
   \<and> trace (snd (do_wait_admission resources_bool (broken example_busy None) 4 100 0))
        = [set_exception 0 broken_semaphore, set_exception 1 broken_semaphore]"
  by (simp add: broken_def broken_loop_eq example_busy_fields eval_defs)

text \<open>
  C8, amended. \<^verbatim>\<open>broken\<close> sets the given exception (a broken-semaphore exception when
  none is given) in the promise of every entry of the wait list, in order, and empties the
  wait list; it changes nothing else, so it leaves nothing behind for later callers.
  \<^verbatim>\<open>stop\<close>, run on a semaphore that was not stopped, marks it stopped, starts closing
  the readers of all inactive reads and breaks the waiters with the stopped exception.
\<close>

theorem broken_fails_current_waiters:
  "broken s ex =
     s\<lparr>trace := trace s @
          map (\<lambda>x. set_exception (pr x) (case ex of None \<Rightarrow> broken_semaphore | Some e \<Rightarrow> e))
              (wait_list s),
       wait_list := []\<rparr>
   \<and> (\<not> stopped s \<longrightarrow>
        stop s = Some
          (s\<lparr>stopped := True,
             inactive_reads := [],
             trace := trace s @ map (\<lambda>ir. close_reader_called (reader ir)) (inactive_reads s)
                        @ map (\<lambda>x. set_exception (pr x) (stopped_exception s)) (wait_list s),
             wait_list := []\<rparr>))"
  using broken_eq stop_eq by blast

theorem broken_fails_current_waiters_witness:
  "\<not> stopped example_busy
   \<and> broken example_busy None =
       example_busy\<lparr>trace := [set_exception 0 broken_semaphore, set_exception 1 broken_semaphore],
                    wait_list := []\<rparr>
   \<and> stop example_busy = Some
       (example_busy\<lparr>stopped := True, inactive_reads := [],
          trace := [set_exception 0 (runtime_error ''sem was stopped''),
                    set_exception 1 (runtime_error ''sem was stopped'')],
          wait_list := []\<rparr>)"
  using broken_fails_current_waiters [of example_busy None]
  by (simp add: example_busy_fields stopped_exception_def)

subsection \<open>A permit destroyed while it holds resources\<close>





subsection \<open>The state of a permit whose admission failed\<close>

text \<open>
  C10. Neither \<^verbatim>\<open>broken\<close> nor the expiry of a deadline touches a permit record. For
  every entry of the wait list, \<^verbatim>\<open>broken\<close> sets its exception in the promise of the
  entry and the expiry sets the timed-out exception there, and a permit of the entry that
  was waiting is the same record afterwards, still waiting. A permit that is enqueued is
  waiting, and stays waiting when its promise is then failed by \<^verbatim>\<open>broken\<close> or by the
  expiry of its deadline.
\<close>

theorem failed_waiter_stays_waiting:
  "permits (broken s ex) = permits s
   \<and> permits (expire s k) = permits s
   \<and> (\<forall>e \<in> set (wait_list s).
        set_exception (pr e) (case ex of None \<Rightarrow> broken_semaphore | Some x \<Rightarrow> x)
          \<in> set (trace (broken s ex))
        \<and> set_exception (pr e) (named_semaphore_timed_out (name s))
          \<in> set (trace (expire s (pr e)))
        \<and> (\<forall>i. permits s (permit e) = Some i \<and> permit_state i = waiting \<longrightarrow>
              permits (broken s ex) (permit e) = Some i
              \<and> permits (expire s (pr e)) (permit e) = Some i))
   \<and> (length (wait_list s) < max_queue_length s \<and> permits s p = Some j \<longrightarrow>
        fst (enqueue_waiter s p r t) = pending_future (next_promise s)
        \<and> map_option permit_state (permits (snd (enqueue_waiter s p r t)) p) = Some waiting
        \<and> map_option permit_state (permits (broken (snd (enqueue_waiter s p r t)) ex) p) = Some waiting
        \<and> map_option permit_state
             (permits (expire (snd (enqueue_waiter s p r t)) (next_promise s)) p) = Some waiting)"
proof -
  have t1: "set_exception (pr e) (case ex of None \<Rightarrow> broken_semaphore | Some x \<Rightarrow> x)
          \<in> set (trace (broken s ex))" if "e \<in> set (wait_list s)" for e
    unfolding broken_eq using that by simp
  have t2: "set_exception (pr e) (named_semaphore_timed_out (name s))
          \<in> set (trace (expire s (pr e)))" if "e \<in> set (wait_list s)" for e
  proof -
    from that have "find (\<lambda>x. pr x = pr e) (wait_list s) \<noteq> None"
      by (auto simp: find_None_iff)
    then obtain e' where f: "find (\<lambda>x. pr x = pr e) (wait_list s) = Some e'" by auto
    then have "pr e' = pr e" by (auto simp: find_Some_iff)
    with f show ?thesis
      by (simp add: expire_def expiry_handler_def maybe_dump_reader_permit_diagnostics_def)
  qed
  have t3: "map_option permit_state (permits (snd (enqueue_waiter s p r t)) p) = Some waiting
       \<and> fst (enqueue_waiter s p r t) = pending_future (next_promise s)"
    if "length (wait_list s) < max_queue_length s" "permits s p = Some j"
    using that by (simp add: enqueue_waiter_def Let_def on_waiting_def update_permit_def)
  show ?thesis
    using t1 t2 t3 by (simp add: permits_broken permits_expire)
qed

theorem failed_waiter_stays_waiting_witness:
  "\<lparr>pr = 0, permit = 2, res = \<lparr>count = 1, memory = 600\<rparr>, timeout = 0\<rparr> \<in> set (wait_list example_busy)
   \<and> map_option permit_state (permits example_busy 2) = Some waiting
   \<and> set_exception 0 broken_semaphore \<in> set (trace (broken example_busy None))
   \<and> map_option permit_state (permits (broken example_busy None) 2) = Some waiting
   \<and> set_exception 0 (named_semaphore_timed_out ''sem'') \<in> set (trace (expire example_busy 0))
   \<and> map_option permit_state (permits (expire example_busy 0) 2) = Some waiting
   \<and> length (wait_list example_idle) < max_queue_length example_idle
   \<and> map_option permit_state (permits example_idle 0) = Some active
   \<and> map_option permit_state
        (permits (broken (snd (enqueue_waiter example_idle 0 \<lparr>count = 1, memory = 10\<rparr> 0)) None) 0)
        = Some waiting
   \<and> map_option permit_state
        (permits (expire (snd (enqueue_waiter example_idle 0 \<lparr>count = 1, memory = 10\<rparr> 0)) 0) 0)
        = Some waiting"
  using failed_waiter_stays_waiting [of example_busy None 0 0 undefined "\<lparr>count = 1, memory = 10\<rparr>" 0]
        failed_waiter_stays_waiting [of example_idle None 0 0
           "\<lparr>schema = None, op_name = ''read'',
              permit_resources = \<lparr>count = 0, memory = 0\<rparr>, permit_state = active\<rparr>"
           "\<lparr>count = 1, memory = 10\<rparr>" 0]
  by (simp add: example_busy_fields example_idle_fields example_idle_def eval_defs)

end
